theory Spec2Isabelle
  imports Complex_Main "HOL-Library.Sublist" "HOL-Library.Log_Nat"
begin

section \<open>Python values used by parse\_simplify.py\<close>

text \<open>
  Exceptions of the source become values of \<open>error\<close>; a computation that may raise has
  type \<open>error + 'a\<close> with \<open>Inl\<close> for the raised exception.
\<close>

datatype error =
    AttributeError
  | IndexError
  | KeyError
  | TypeError
  | ValueError
  | OverflowError
  | NoSuchElementException
  | TimeoutException
  | ElementNotInteractableException
  | WebDriverException
  | UniqueViolation
  | InFailedSqlTransaction

definition bnd :: "error + 'a \<Rightarrow> ('a \<Rightarrow> error + 'b) \<Rightarrow> error + 'b" where
  "bnd m f = (case m of Inl e \<Rightarrow> Inl e | Inr x \<Rightarrow> f x)"

subsection \<open>Strings\<close>

text \<open>
  A Python \<open>str\<close> is modelled by \<open>string\<close>: the code points 0 to 255, for which the character
  classes below are those of Python 3 (\<open>str.isalnum\<close>, \<open>str.strip\<close>, the blanks \<open>int\<close> and
  \<open>float\<close> skip, and the decimal digits, which are the ASCII ones in this range).
\<close>

definition code :: "char \<Rightarrow> nat" where
  "code c = of_char c"

definition isdecimal :: "char \<Rightarrow> bool" where
  "isdecimal c = (48 \<le> code c \<and> code c \<le> 57)"

definition isalnum :: "char \<Rightarrow> bool" where
  "isalnum c = (let n = code c in
     (48 \<le> n \<and> n \<le> 57) \<or> (65 \<le> n \<and> n \<le> 90) \<or> (97 \<le> n \<and> n \<le> 122) \<or>
     n = 170 \<or> n = 178 \<or> n = 179 \<or> n = 181 \<or> n = 185 \<or> n = 186 \<or>
     (188 \<le> n \<and> n \<le> 190) \<or> (192 \<le> n \<and> n \<le> 214) \<or>
     (216 \<le> n \<and> n \<le> 246) \<or> (248 \<le> n \<and> n \<le> 255))"

definition isspace :: "char \<Rightarrow> bool" where
  "isspace c = (let n = code c in
     (9 \<le> n \<and> n \<le> 13) \<or> (28 \<le> n \<and> n \<le> 32) \<or> n = 133 \<or> n = 160)"

text \<open>The blanks skipped around a numeric literal by \<open>int\<close> and \<open>float\<close>.\<close>

definition isblank :: "char \<Rightarrow> bool" where
  "isblank c = (let n = code c in (9 \<le> n \<and> n \<le> 13) \<or> n = 32 \<or> n = 133 \<or> n = 160)"

definition strip_by :: "(char \<Rightarrow> bool) \<Rightarrow> string \<Rightarrow> string" where
  "strip_by p s = rev (dropWhile p (rev (dropWhile p s)))"

text \<open>\<open>s.strip()\<close> and \<open>s.strip(chars)\<close>.\<close>

definition strip :: "string \<Rightarrow> string" where
  "strip s = strip_by isspace s"

definition strip_chars :: "string \<Rightarrow> string \<Rightarrow> string" where
  "strip_chars chars s = strip_by (\<lambda>c. c \<in> set chars) s"

text \<open>\<open>sub in s\<close> for strings.\<close>

definition contains :: "string \<Rightarrow> string \<Rightarrow> bool" where
  "contains sub s = (\<exists>t \<in> set (suffixes s). prefix sub t)"

text \<open>\<open>s.replace(old, new)\<close>: the occurrences of \<open>old\<close> are found from the left and do not
  overlap; with an empty \<open>old\<close>, \<open>new\<close> is put before every character and at the end.\<close>

fun replace_from :: "string \<Rightarrow> string \<Rightarrow> nat \<Rightarrow> string \<Rightarrow> string" where
  "replace_from old new skip [] = []"
| "replace_from old new (Suc k) (c # cs) = replace_from old new k cs"
| "replace_from old new 0 (c # cs) =
     (if prefix old (c # cs) then new @ replace_from old new (length old - 1) cs
      else c # replace_from old new 0 cs)"

definition replace :: "string \<Rightarrow> string \<Rightarrow> string \<Rightarrow> string" where
  "replace old new s =
     (if old = [] then new @ concat (map (\<lambda>c. c # new) s) else replace_from old new 0 s)"

subsection \<open>Integer and float literals\<close>

definition digit_val :: "char \<Rightarrow> nat" where
  "digit_val c = code c - 48"

definition digits_val :: "string \<Rightarrow> nat" where
  "digits_val ds = foldl (\<lambda>a c. 10 * a + digit_val c) 0 ds"

text \<open>
  A digit part is a digit followed by digits, each optionally preceded by one underscore.
  \<open>read_more\<close> reads what follows the first digit; both return the digits read and the rest.
\<close>

fun read_more :: "string \<Rightarrow> string \<times> string" where
  "read_more [] = ([], [])"
| "read_more [c] = (if isdecimal c then ([c], []) else ([], [c]))"
| "read_more (c # d # cs) =
     (if isdecimal c then (let (ds, r) = read_more (d # cs) in (c # ds, r))
      else if c = CHR ''_'' \<and> isdecimal d then (let (ds, r) = read_more cs in (d # ds, r))
      else ([], c # d # cs))"

definition read_digitpart :: "string \<Rightarrow> string \<times> string" where
  "read_digitpart s =
     (case s of [] \<Rightarrow> ([], [])
      | c # cs \<Rightarrow> if isdecimal c then (let (ds, r) = read_more cs in (c # ds, r)) else ([], s))"

text \<open>An optional sign: the flag is \<open>True\<close> for a minus.\<close>

definition read_sign :: "string \<Rightarrow> bool \<times> string" where
  "read_sign s =
     (case s of [] \<Rightarrow> (False, [])
      | c # cs \<Rightarrow> if c = CHR ''-'' then (True, cs) else if c = CHR ''+'' then (False, cs)
                 else (False, s))"

text \<open>\<open>int(s)\<close> for a string \<open>s\<close>, base 10.\<close>

definition py_int :: "string \<Rightarrow> error + int" where
  "py_int s =
     (let (neg, body) = read_sign (strip_by isblank s);
          (ds, rest) = read_digitpart body
      in if ds = [] \<or> rest \<noteq> [] then Inl ValueError
         else Inr (if neg then - int (digits_val ds) else int (digits_val ds)))"

text \<open>
  A Python \<open>float\<close> is an IEEE 754 binary64 number: a finite value is kept as the rational it
  denotes (the sign of zero is not kept: no operation of the source observes it).
\<close>

datatype pyfloat = Finite rat | Infinity bool | NaN

definition pow2 :: "int \<Rightarrow> rat" where
  "pow2 k = (if 0 \<le> k then 2 ^ nat k else 1 / 2 ^ nat (- k))"

text \<open>The exponent \<open>e\<close> with \<open>2 ^ e \<le> a < 2 ^ (e + 1)\<close>, for a positive rational \<open>a\<close>.\<close>

definition ilog2 :: "rat \<Rightarrow> int" where
  "ilog2 a =
     (let (n, d) = quotient_of a; k = bitlen n - bitlen d
      in if pow2 k \<le> a then k else k - 1)"

definition round_half_even :: "rat \<Rightarrow> int" where
  "round_half_even x =
     (let f = \<lfloor>x\<rfloor>; r = x - of_int f
      in if r < 1 / 2 then f else if 1 / 2 < r then f + 1 else if even f then f else f + 1)"

text \<open>
  Rounding of a real value to binary64, to nearest with ties to even: 53 significant bits,
  exponents from -1022 (below which the spacing stays \<open>2 ^ -1074\<close>) to 1023. The rounded
  value is \<open>m * 2 ^ (e - 52)\<close> with \<open>m \<le> 2 ^ 53\<close>; it is an infinity when it reaches
  \<open>2 ^ 1024\<close>.
\<close>

definition round_double :: "rat \<Rightarrow> pyfloat" where
  "round_double q =
     (if q = 0 then Finite 0
      else let a = \<bar>q\<bar>;
               e = max (ilog2 a) (- 1022);
               m = round_half_even (a / pow2 (e - 52))
           in if 1023 < e \<or> (e = 1023 \<and> m = 2 ^ 53) then Infinity (q < 0)
              else Finite (if q < 0 then - (of_int m * pow2 (e - 52))
                           else of_int m * pow2 (e - 52)))"

definition lower :: "char \<Rightarrow> char" where
  "lower c = (if 65 \<le> code c \<and> code c \<le> 90 then char_of (code c + 32) else c)"

text \<open>\<open>float(s)\<close> for a string \<open>s\<close>; the decimal value is rounded correctly.\<close>

definition py_float :: "string \<Rightarrow> error + pyfloat" where
  "py_float s =
     (let (neg, body) = read_sign (strip_by isblank s);
          word = map lower body
      in if word = ''inf'' \<or> word = ''infinity'' then Inr (Infinity neg)
         else if word = ''nan'' then Inr NaN
         else
           let (ip, r1) = read_digitpart body;
               (fp, r2) = (case r1 of [] \<Rightarrow> ([], [])
                           | c # cs \<Rightarrow> if c = CHR ''.'' then read_digitpart cs else ([], r1));
               mant = (of_nat (digits_val ip) :: rat)
                      + of_nat (digits_val fp) / 10 ^ length fp
           in if ip = [] \<and> fp = [] then Inl ValueError
              else (case r2 of
                  [] \<Rightarrow> Inr (round_double (if neg then - mant else mant))
                | c # cs \<Rightarrow>
                    if lower c \<noteq> CHR ''e'' then Inl ValueError
                    else let (eneg, r3) = read_sign cs; (ep, r4) = read_digitpart r3
                         in if ep = [] \<or> r4 \<noteq> [] then Inl ValueError
                            else let v = (if eneg then mant / 10 ^ digits_val ep
                                          else mant * 10 ^ digits_val ep)
                                 in Inr (round_double (if neg then - v else v))))"

text \<open>\<open>x * y\<close> on floats, and \<open>int(x)\<close> for a float \<open>x\<close> (truncation towards zero).\<close>

definition float_sign :: "pyfloat \<Rightarrow> int" where
  "float_sign x =
     (case x of
        Finite a \<Rightarrow> (if a < 0 then - 1 else if a = 0 then 0 else 1)
      | Infinity neg \<Rightarrow> (if neg then - 1 else 1)
      | NaN \<Rightarrow> 0)"

definition float_mul :: "pyfloat \<Rightarrow> pyfloat \<Rightarrow> pyfloat" where
  "float_mul x y =
     (case (x, y) of
        (Finite a, Finite b) \<Rightarrow> round_double (a * b)
      | (NaN, _) \<Rightarrow> NaN
      | (_, NaN) \<Rightarrow> NaN
      | _ \<Rightarrow> if float_sign x * float_sign y = 0 then NaN
             else Infinity (float_sign x * float_sign y < 0))"

definition int_of_float :: "pyfloat \<Rightarrow> error + int" where
  "int_of_float x =
     (case x of
        Finite a \<Rightarrow> Inr (if 0 \<le> a then \<lfloor>a\<rfloor> else \<lceil>a\<rceil>)
      | Infinity _ \<Rightarrow> Inl OverflowError
      | NaN \<Rightarrow> Inl ValueError)"

section \<open>Parsed markup\<close>

text \<open>
  The detail pane is handed to the extractor as a parsed document (a BeautifulSoup tree):
  an element has a tag name, its classes, its other attributes and its children; a text
  node holds a string. The document itself is an element named \<open>[document]\<close>.
\<close>

datatype html =
    Element string "string list" "(string \<times> string) list" "html list"
  | NavigableString string

text \<open>\<open>node.text\<close>: the strings below the node, joined in document order.\<close>

fun get_text :: "html \<Rightarrow> string" where
  "get_text (NavigableString s) = s"
| "get_text (Element tg cls ats kids) = concat (map get_text kids)"

text \<open>The nodes strictly below a node, in document order.\<close>

fun descendants :: "html \<Rightarrow> html list" where
  "descendants (NavigableString s) = []"
| "descendants (Element tg cls ats kids) = concat (map (\<lambda>k. k # descendants k) kids)"

text \<open>
  The selectors of the source are of two shapes: a tag name with classes (\<open>div.mb-3\<close>,
  \<open>h1\<close>), and two of these joined by the descendant combinator (\<open>div.py-5 h1\<close>).
\<close>

type_synonym compound = "string \<times> string list"

datatype selector = Sel compound | Within compound compound

definition matches :: "compound \<Rightarrow> html \<Rightarrow> bool" where
  "matches c node =
     (case node of
        Element tg cls ats kids \<Rightarrow> tg = fst c \<and> set (snd c) \<subseteq> set cls
      | NavigableString s \<Rightarrow> False)"

text \<open>The nodes below \<open>node\<close> that match \<open>c\<close> and have an ancestor matching \<open>anc\<close>; \<open>inside\<close>
  tells whether an ancestor of \<open>node\<close> already matches.\<close>

fun select_within :: "compound \<Rightarrow> compound \<Rightarrow> bool \<Rightarrow> html \<Rightarrow> html list" where
  "select_within anc c inside (NavigableString s) = []"
| "select_within anc c inside (Element tg cls ats kids) =
     concat (map (\<lambda>k.
       (if (inside \<or> matches anc (Element tg cls ats kids)) \<and> matches c k then [k] else [])
       @ select_within anc c (inside \<or> matches anc (Element tg cls ats kids)) k) kids)"

text \<open>\<open>node.select(sel)\<close>, \<open>node.select_one(sel)\<close> and \<open>node.find(tag, attrs={key: value})\<close>.\<close>

definition select :: "selector \<Rightarrow> html \<Rightarrow> html list" where
  "select sel node =
     (case sel of
        Sel c \<Rightarrow> filter (matches c) (descendants node)
      | Within anc c \<Rightarrow> select_within anc c False node)"

definition select_one :: "selector \<Rightarrow> html \<Rightarrow> html option" where
  "select_one sel node = (case select sel node of [] \<Rightarrow> None | x # xs \<Rightarrow> Some x)"

definition has_attr :: "string \<Rightarrow> string \<Rightarrow> string \<Rightarrow> html \<Rightarrow> bool" where
  "has_attr tag key val node =
     (case node of
        Element tg cls ats kids \<Rightarrow> tg = tag \<and> map_of ats key = Some val
      | NavigableString s \<Rightarrow> False)"

definition find :: "string \<Rightarrow> string \<Rightarrow> string \<Rightarrow> html \<Rightarrow> html option" where
  "find tag key val node =
     (case filter (has_attr tag key val) (descendants node) of [] \<Rightarrow> None | x # xs \<Rightarrow> Some x)"

text \<open>\<open>node[key]\<close> on an element, and \<open>xs[i]\<close> on a list with \<open>i\<close> not negative.\<close>

definition get_attr :: "html \<Rightarrow> string \<Rightarrow> error + string" where
  "get_attr node key =
     (case node of
        Element tg cls ats kids \<Rightarrow> (case map_of ats key of None \<Rightarrow> Inl KeyError | Some v \<Rightarrow> Inr v)
      | NavigableString s \<Rightarrow> Inl TypeError)"

definition index :: "'a list \<Rightarrow> nat \<Rightarrow> error + 'a" where
  "index xs i = (if i < length xs then Inr (xs ! i) else Inl IndexError)"

text \<open>The selectors of the source.\<close>

definition div_bg_primary_light :: selector where
  "div_bg_primary_light = Sel (''div'', [''bg-primary-light''])"

definition div_mb_3 :: selector where
  "div_mb_3 = Sel (''div'', [''mb-3''])"

definition div_mt_3 :: selector where
  "div_mt_3 = Sel (''div'', [''mt-3''])"

definition p_mt_1 :: selector where
  "p_mt_1 = Sel (''p'', [''mt-1''])"

definition a_text_stone_600 :: selector where
  "a_text_stone_600 = Sel (''a'', [''text-stone-600''])"

definition div_py_5_h1 :: selector where
  "div_py_5_h1 = Within (''div'', [''py-5'']) (''h1'', [])"

definition div_mb_1_div_mt_3 :: selector where
  "div_mb_1_div_mt_3 = Within (''div'', [''mb-1'']) (''div'', [''mt-3''])"

section \<open>Funding normalizer: \<open>extract_funding\<close>\<close>

definition funding_factors :: "(string \<times> pyfloat) list" where
  "funding_factors = [(''K'', Finite 1000), (''M'', Finite 1000000), (''B'', Finite 1000000000)]"

text \<open>
  The \<open>for\<close> loop over the factors in their order, followed by the \<open>try\<close> block that the
  loop falls through to: \<open>float\<close> and the conversion of the product are outside that
  \<open>try\<close>, so what they raise leaves the function.
\<close>

fun funding_loop :: "(string \<times> pyfloat) list \<Rightarrow> string \<Rightarrow> error + int option" where
  "funding_loop [] funding =
     (case py_int funding of
        Inr n \<Rightarrow> Inr (Some n)
      | Inl e \<Rightarrow> if e = TypeError \<or> e = ValueError then Inr None else Inl e)"
| "funding_loop ((sfx, multiplier) # rest) funding =
     (if contains sfx funding
      then bnd (py_float (replace sfx '''' funding))
             (\<lambda>x. bnd (int_of_float (float_mul x multiplier)) (\<lambda>n. Inr (Some n)))
      else funding_loop rest funding)"

definition extract_funding :: "html \<Rightarrow> error + int option" where
  "extract_funding inline_offer_block =
     (let funding_elements = select div_py_5_h1 inline_offer_block
      in if funding_elements = [] then Inr None
         else bnd (index funding_elements 1)
                (\<lambda>h. funding_loop funding_factors
                        (filter (\<lambda>e. isalnum e \<or> e = CHR ''.'') (get_text h))))"

section \<open>Listing extractor and store: \<open>grab_offer_info\<close>\<close>

text \<open>
  The summary block is a handle into the live page: \<open>offer sel\<close> is the rendered text of
  the first element below it that the CSS selector \<open>sel\<close> finds, \<open>None\<close> when there is none
  (\<open>find_element\<close> then raises).
\<close>

type_synonym offer = "string \<rightharpoonup> string"

definition find_element_text :: "offer \<Rightarrow> string \<Rightarrow> error + string" where
  "find_element_text offer sel =
     (case offer sel of None \<Rightarrow> Inl NoSuchElementException | Some t \<Rightarrow> Inr t)"

text \<open>
  \<open>re.search(r'/([0-9a-fA-F-]{36})/', url)\<close>: the group of the leftmost match, \<open>None\<close> when
  nothing matches.
\<close>

definition hexhy :: "char \<Rightarrow> bool" where
  "hexhy c = (c \<in> set ''0123456789abcdefABCDEF-'')"

fun re_search :: "string \<Rightarrow> string option" where
  "re_search [] = None"
| "re_search (c # cs) =
     (if c = CHR ''/'' \<and> 36 < length cs \<and> list_all hexhy (take 36 cs) \<and> cs ! 36 = CHR ''/''
      then Some (take 36 cs)
      else re_search cs)"

text \<open>The value of \<open>experience_level\<close> is a list of strings or a string.\<close>

datatype pyval = PyList "string list" | PyStr string

record job_data =
  job_id :: string
  position_name :: string
  company_name :: string
  locations :: string
  experience_level :: pyval
  desired_skills :: "string list"
  categories :: "string list"
  employee_count :: string
  company_website :: string
  company_stage :: "string option"
  company_funding :: "int option"
  foundation_year :: "int option"
  company_industries :: "string list"

text \<open>
  The dictionary display of \<open>grab_offer_info\<close>; its entries are evaluated in their order,
  so the first one that raises decides the exception. A method called on \<open>None\<close> raises
  \<open>AttributeError\<close>, subscripting \<open>None\<close> raises \<open>TypeError\<close>.
\<close>

definition build_job_data :: "offer \<Rightarrow> html \<Rightarrow> string \<Rightarrow> error + job_data" where
  "build_job_data offer inline_offer_block url =
     bnd (case re_search url of
            None \<Rightarrow> Inl AttributeError
          | Some g \<Rightarrow> Inr (strip_chars ''/'' g)) (\<lambda>offer_id.
     bnd (find_element_text offer ''h3'') (\<lambda>position.
     bnd (find_element_text offer ''h4'') (\<lambda>company.
     bnd (find_element_text offer ''p'') (\<lambda>locs.
     bnd (case select_one div_mb_3 inline_offer_block of
            None \<Rightarrow> Inl AttributeError
          | Some n \<Rightarrow> Inr (map get_text (select div_mt_3 n))) (\<lambda>skills.
     bnd (case find ''div'' ''data-state'' ''closed'' inline_offer_block of
            None \<Rightarrow> Inl AttributeError
          | Some n \<Rightarrow> Inr (map get_text (select div_mt_3 n))) (\<lambda>cats.
     bnd (case select_one p_mt_1 inline_offer_block of
            None \<Rightarrow> Inl AttributeError
          | Some n \<Rightarrow> Inr (strip (replace ''employees'' '''' (get_text n)))) (\<lambda>employees.
     bnd (case select_one a_text_stone_600 inline_offer_block of
            None \<Rightarrow> Inl TypeError
          | Some n \<Rightarrow> get_attr n ''href'') (\<lambda>website.
     bnd (extract_funding inline_offer_block) (\<lambda>funding.
     Inr \<lparr> job_id = offer_id,
           position_name = position,
           company_name = company,
           locations = locs,
           experience_level =
             (if select div_bg_primary_light inline_offer_block \<noteq> []
              then PyList (map get_text (select div_bg_primary_light inline_offer_block))
              else PyStr ''Intern''),
           desired_skills = skills,
           categories = cats,
           employee_count = employees,
           company_website = website,
           company_stage = None,
           company_funding = funding,
           foundation_year = None,
           company_industries = map get_text (select div_mb_1_div_mt_3 inline_offer_block)
         \<rparr>)))))))))"

text \<open>
  The profile block: the stage is the first heading, the year is \<open>int\<close> of the third one,
  with only \<open>ValueError\<close> caught.
\<close>

definition profile_fields :: "html \<Rightarrow> job_data \<Rightarrow> error + job_data" where
  "profile_fields inline_offer_block jd =
     (let hs = select div_py_5_h1 inline_offer_block
      in if hs \<noteq> []
         then bnd (index hs 0) (\<lambda>h0.
              bnd (index hs 2) (\<lambda>h2.
                case py_int (get_text h2) of
                  Inr n \<Rightarrow> Inr (jd\<lparr>company_stage := Some (get_text h0), foundation_year := Some n\<rparr>)
                | Inl e \<Rightarrow>
                    if e = ValueError
                    then Inr (jd\<lparr>company_stage := Some (get_text h0), foundation_year := None\<rparr>)
                    else Inl e))
         else Inr jd)"

text \<open>
  The connection and its cursor. Modelled from the spec: \<open>INSERT_DATA_QUERY\<close> and the table
  it writes to are declared in the configuration module, which is not part of the sources
  at hand; by the spec the sink accepts inserts into a table keyed uniquely by \<open>id\<close> and
  signals a second row with the same key as a uniqueness violation. The rows a session has
  inserted and not yet committed are \<open>pending\<close>; a failed statement leaves the transaction
  aborted, and every statement is refused until it is rolled back.
\<close>

datatype tx_status = Idle | InTransaction | Aborted

record connection =
  table :: "job_data list"
  pending :: "job_data list"
  status :: tx_status

definition execute_insert :: "job_data \<Rightarrow> connection \<Rightarrow> error option \<times> connection" where
  "execute_insert row conn =
     (if status conn = Aborted then (Some InFailedSqlTransaction, conn)
      else if job_id row \<in> job_id ` set (table conn @ pending conn)
      then (Some UniqueViolation, conn\<lparr>status := Aborted\<rparr>)
      else (None, conn\<lparr>pending := pending conn @ [row], status := InTransaction\<rparr>))"

definition rollback :: "connection \<Rightarrow> connection" where
  "rollback conn = conn\<lparr>pending := [], status := Idle\<rparr>"

definition commit :: "connection \<Rightarrow> connection" where
  "commit conn =
     (if status conn = Aborted then rollback conn
      else conn\<lparr>table := table conn @ pending conn, pending := [], status := Idle\<rparr>)"

text \<open>The \<open>try\<close> block that ends \<open>grab_offer_info\<close>; the outcome is what it logs.\<close>

datatype outcome = Inserted | AlreadyExists

definition insert_offer :: "job_data \<Rightarrow> connection \<Rightarrow> (error + outcome) \<times> connection" where
  "insert_offer jd conn =
     (case execute_insert jd conn of
        (None, c1) \<Rightarrow> (Inr Inserted, commit c1)
      | (Some e, c1) \<Rightarrow>
          if e = UniqueViolation then (Inr AlreadyExists, rollback c1) else (Inl e, c1))"

text \<open>The extraction is all of \<open>grab_offer_info\<close> before that \<open>try\<close> block.\<close>

definition extract_listing :: "offer \<Rightarrow> html \<Rightarrow> string \<Rightarrow> error + job_data" where
  "extract_listing offer inline_offer_block url =
     bnd (build_job_data offer inline_offer_block url) (profile_fields inline_offer_block)"

definition grab_offer_info ::
  "offer \<Rightarrow> html \<Rightarrow> string \<Rightarrow> connection \<Rightarrow> (error + outcome) \<times> connection" where
  "grab_offer_info offer inline_offer_block url conn =
     (case extract_listing offer inline_offer_block url of
        Inl e \<Rightarrow> (Inl e, conn)
      | Inr jd \<Rightarrow> insert_offer jd conn)"

section \<open>Session controller and crawl driver\<close>

text \<open>
  The browser is the environment of the crawl. What it answers is given beforehand:
  \<^item> \<open>login_page\<close>: what opening the login page, filling the form and clicking raise, if
    anything;
  \<^item> \<open>marker k\<close>: whether the \<open>k\<close>-th bounded wait for the element of the logged-in page finds
    it (otherwise that wait raises \<open>TimeoutException\<close>); the operator's answer to the
    prompt is awaited without bound;
  \<^item> \<open>listing_page\<close>: what opening the listing and waiting for its first block raise;
  \<^item> \<open>blocks k\<close>: the job blocks that \<open>find_elements\<close> returns in the \<open>k\<close>-th pass of
    the outer loop;
  \<^item> \<open>page_down k\<close>: what sending the page-down key raises at the end of that pass.

  A job block carries what the steps on it give: \<open>open_error\<close> for the click on its detail
  trigger, the wait for the pane and the snapshot; the parsed pane and the URL of the
  detail view; \<open>close_error\<close> for the click that closes the pane and the wait for it to
  disappear.
\<close>

record item =
  summary :: offer
  open_error :: "error option"
  pane :: html
  current_url :: string
  close_error :: "error option"

record driver =
  login_page :: "error option"
  marker :: "nat \<Rightarrow> bool"
  listing_page :: "error option"
  blocks :: "nat \<Rightarrow> item list"
  page_down :: "nat \<Rightarrow> error option"

text \<open>
  The \<open>while True\<close> loop of \<open>login\<close>, from its \<open>k\<close>-th pass on: it returns the number of
  prompts answered when the marker is found, and does not return while it is not.
\<close>

partial_function (option) login_wait :: "driver \<Rightarrow> nat \<Rightarrow> nat option" where
  "login_wait drv k = (if marker drv k then Some k else login_wait drv (Suc k))"

definition login :: "driver \<Rightarrow> (error + nat) option" where
  "login drv =
     (case login_page drv of
        Some e \<Rightarrow> Some (Inl e)
      | None \<Rightarrow> map_option Inr (login_wait drv 0))"

text \<open>
  The state of \<open>scroll_and_load_jobs\<close>: the cursor \<open>start_block_n\<close>, the connection, the
  number of passes of the outer loop made, and the number of page-down keys sent.
\<close>

record crawl =
  start_block_n :: nat
  conn :: connection
  passes :: nat
  keys_sent :: nat

text \<open>The \<open>for\<close> loop over the blocks of a section; an exception ends it with the state
  reached.\<close>

fun visit_offers :: "item list \<Rightarrow> crawl \<Rightarrow> error option \<times> crawl" where
  "visit_offers [] st = (None, st)"
| "visit_offers (it # rest) st =
     (case open_error it of
        Some e \<Rightarrow> (Some e, st)
      | None \<Rightarrow>
          (case grab_offer_info (summary it) (pane it) (current_url it) (conn st) of
             (Inl e, c) \<Rightarrow> (Some e, st\<lparr>conn := c\<rparr>)
           | (Inr out, c) \<Rightarrow>
               (case close_error it of
                  Some e \<Rightarrow> (Some e, st\<lparr>conn := c, start_block_n := start_block_n st + 1\<rparr>)
                | None \<Rightarrow>
                    visit_offers rest (st\<lparr>conn := c, start_block_n := start_block_n st + 1\<rparr>))))"

text \<open>The section of a pass: \<open>all_job_blocks[start_block_n: start_block_n + 21]\<close>.\<close>

definition section_job_blocks :: "driver \<Rightarrow> crawl \<Rightarrow> item list" where
  "section_job_blocks drv st = take 21 (drop (start_block_n st) (blocks drv (passes st)))"

text \<open>The outer \<open>while True\<close> loop; it does not return while the sections are not empty.\<close>

partial_function (option) crawl_loop :: "driver \<Rightarrow> crawl \<Rightarrow> (error option \<times> crawl) option" where
  "crawl_loop drv st =
     (if length (section_job_blocks drv st) = 0 then Some (None, st)
      else case visit_offers (section_job_blocks drv st) st of
          (Some e, st1) \<Rightarrow> Some (Some e, st1)
        | (None, st1) \<Rightarrow>
            (case page_down drv (passes st) of
               None \<Rightarrow>
                 crawl_loop drv (st1\<lparr>passes := passes st + 1, keys_sent := keys_sent st + 1\<rparr>)
             | Some e \<Rightarrow>
                 if e = ElementNotInteractableException
                 then crawl_loop drv (st1\<lparr>passes := passes st + 1, keys_sent := keys_sent st + 1\<rparr>)
                 else Some (Some e, st1\<lparr>keys_sent := keys_sent st + 1\<rparr>)))"

definition scroll_and_load_jobs :: "driver \<Rightarrow> connection \<Rightarrow> (error option \<times> crawl) option" where
  "scroll_and_load_jobs drv c =
     (let st = \<lparr>start_block_n = 0, conn = c, passes = 0, keys_sent = 0\<rparr>
      in case listing_page drv of
           Some e \<Rightarrow> Some (Some e, st)
         | None \<Rightarrow> crawl_loop drv st)"

text \<open>\<open>main\<close>: log in, then crawl; no exception is caught, the \<open>finally\<close> block only closes
  the connection and the browser. The result is the exception that ended the run, if any,
  and the connection as the run left it.\<close>

definition main :: "driver \<Rightarrow> connection \<Rightarrow> (error option \<times> connection) option" where
  "main drv c =
     (case login drv of
        None \<Rightarrow> None
      | Some (Inl e) \<Rightarrow> Some (Some e, c)
      | Some (Inr k) \<Rightarrow> map_option (\<lambda>(r, st). (r, conn st)) (scroll_and_load_jobs drv c))"

section \<open>Fixtures\<close>

text \<open>
  A detail pane as the site renders it, with the given experience badges and the given
  headings in its profile block, and a summary block with its three texts.
\<close>

definition detail_pane :: "string list \<Rightarrow> string list \<Rightarrow> html" where
  "detail_pane badges headings =
     Element ''[document]'' [] []
       [Element ''div'' [''relative'', ''h-screen''] []
          (map (\<lambda>t. Element ''div'' [''bg-primary-light''] [] [NavigableString t]) badges @
           [Element ''div'' [''mb-3''] []
              [Element ''div'' [''mt-3''] [] [NavigableString ''Python'']],
            Element ''div'' [] [(''data-state'', ''closed'')]
              [Element ''div'' [''mt-3''] [] [NavigableString ''Software Engineering'']],
            Element ''p'' [''mt-1''] [] [NavigableString ''51-200 employees''],
            Element ''a'' [''text-stone-600''] [(''href'', ''https://example.com'')] [],
            Element ''div'' [''py-5''] []
              (map (\<lambda>t. Element ''h1'' [] [] [NavigableString t]) headings)])]"

definition summary_block :: offer where
  "summary_block = [''h3'' \<mapsto> ''Software Engineer Intern'', ''h4'' \<mapsto> ''Acme'', ''p'' \<mapsto> ''Remote'']"

definition detail_url :: string where
  "detail_url = ''https://simplify.jobs/jobs/3fa85f64-5717-4562-b3fc-2c963f66afa6/overview''"

definition empty_store :: connection where
  "empty_store = \<lparr>table = [], pending = [], status = Idle\<rparr>"

section \<open>Properties of the funding normalizer\<close>

lemma extract_funding_second_heading:
  assumes "index (select div_py_5_h1 blk) 1 = Inr h"
  shows "extract_funding blk =
           funding_loop funding_factors (filter (\<lambda>e. isalnum e \<or> e = CHR ''.'') (get_text h))"
proof -
  from assms have "select div_py_5_h1 blk \<noteq> []"
    by (auto simp: index_def split: if_splits)
  with assms show ?thesis
    by (simp add: extract_funding_def bnd_def)
qed

lemma funding_1_5M:
  "funding_loop funding_factors (filter (\<lambda>e. isalnum e \<or> e = CHR ''.'') ''$1.5M'')
     = Inr (Some 1500000)"
  by code_simp

lemma funding_500K:
  "funding_loop funding_factors (filter (\<lambda>e. isalnum e \<or> e = CHR ''.'') ''$500K'')
     = Inr (Some 500000)"
  by code_simp

lemma funding_2B:
  "funding_loop funding_factors (filter (\<lambda>e. isalnum e \<or> e = CHR ''.'') ''$2B'')
     = Inr (Some 2000000000)"
  by code_simp

lemma funding_empty:
  "funding_loop funding_factors (filter (\<lambda>e. isalnum e \<or> e = CHR ''.'') '''') = Inr None"
  by code_simp

lemma funding_NA:
  "funding_loop funding_factors (filter (\<lambda>e. isalnum e \<or> e = CHR ''.'') ''N/A'') = Inr None"
  by code_simp

lemma funding_1000:
  "funding_loop funding_factors (filter (\<lambda>e. isalnum e \<or> e = CHR ''.'') ''1000'')
     = Inr (Some 1000)"
  by code_simp

lemma second_heading_fixture:
  "index (select div_py_5_h1 (detail_pane [] [s, t, y])) 1
     = Inr (Element ''h1'' [] [] [NavigableString t])"
  by (simp add: index_def select_def div_py_5_h1_def detail_pane_def matches_def)

text \<open>
  Claim C4. On a pane whose profile block has a second heading, \<open>extract_funding\<close> gives
  1500000 for the heading text \<open>$1.5M\<close>, 500000 for \<open>$500K\<close>, 2000000000 for \<open>$2B\<close>,
  nothing for the empty text and for \<open>N/A\<close>, and 1000 for \<open>1000\<close>.
\<close>

theorem funding_test_vectors:
  assumes "index (select div_py_5_h1 blk) 1 = Inr h"
  shows "(get_text h = ''$1.5M'' \<longrightarrow> extract_funding blk = Inr (Some 1500000)) \<and>
         (get_text h = ''$500K'' \<longrightarrow> extract_funding blk = Inr (Some 500000)) \<and>
         (get_text h = ''$2B'' \<longrightarrow> extract_funding blk = Inr (Some 2000000000)) \<and>
         (get_text h = '''' \<longrightarrow> extract_funding blk = Inr None) \<and>
         (get_text h = ''N/A'' \<longrightarrow> extract_funding blk = Inr None) \<and>
         (get_text h = ''1000'' \<longrightarrow> extract_funding blk = Inr (Some 1000))"
  using funding_1_5M funding_500K funding_2B funding_empty funding_NA funding_1000
  by (simp add: extract_funding_second_heading [OF assms])

theorem funding_test_vectors_witness:
  "extract_funding (detail_pane [] [''Seed'', ''$1.5M'', ''2015'']) = Inr (Some 1500000) \<and>
   extract_funding (detail_pane [] [''Seed'', ''$500K'', ''2015'']) = Inr (Some 500000) \<and>
   extract_funding (detail_pane [] [''Seed'', ''$2B'', ''2015'']) = Inr (Some 2000000000) \<and>
   extract_funding (detail_pane [] [''Seed'', '''', ''2015'']) = Inr None \<and>
   extract_funding (detail_pane [] [''Seed'', ''N/A'', ''2015'']) = Inr None \<and>
   extract_funding (detail_pane [] [''Seed'', ''1000'', ''2015'']) = Inr (Some 1000)"
  using funding_test_vectors [OF second_heading_fixture [of "''Seed''" "''$1.5M''" "''2015''"]]
        funding_test_vectors [OF second_heading_fixture [of "''Seed''" "''$500K''" "''2015''"]]
        funding_test_vectors [OF second_heading_fixture [of "''Seed''" "''$2B''" "''2015''"]]
        funding_test_vectors [OF second_heading_fixture [of "''Seed''" "''''" "''2015''"]]
        funding_test_vectors [OF second_heading_fixture [of "''Seed''" "''N/A''" "''2015''"]]
        funding_test_vectors [OF second_heading_fixture [of "''Seed''" "''1000''" "''2015''"]]
  by simp

text \<open>
  Claim C5. The claim asks for no exception on a text that holds a unit suffix and no
  number. The code raises there: with the second heading \<open>Bootstrapped\<close> the suffix \<open>B\<close> is
  found, \<open>float\<close> is applied to \<open>ootstrapped\<close> outside any \<open>try\<close>, and its \<open>ValueError\<close>
  leaves \<open>extract_funding\<close>.
\<close>

theorem extract_funding_suffix_raises:
  "extract_funding (detail_pane [] [''Seed'', ''Bootstrapped'', ''2015'']) = Inl ValueError"
  by code_simp

end
